theory Spec2Isabelle
  imports Main "HOL-Library.Word"
begin

section \<open>Strings of the source language\<close>

text \<open>
  A string of the source is a sequence of 16-bit code units. The functions below are the
  string methods the two scripts call, on code units: \<open>trim\<close>, \<open>startsWith\<close>,
  \<open>replace\<close> with the two global patterns of the source, and \<open>toLowerCase\<close>.
  \<open>js\<close> writes an ASCII literal as such a string.
\<close>

type_synonym jsstring = "16 word list"

definition js :: "string \<Rightarrow> jsstring" where
  "js s = map of_char s"

text \<open>
  White space and line terminators as \<open>trim\<close> strips them: TAB, LF, VT, FF, CR, SP,
  NBSP, U+1680, U+2000 to U+200A, U+2028, U+2029, U+202F, U+205F, U+3000 and U+FEFF.
\<close>

definition isWhiteSpace :: "16 word \<Rightarrow> bool" where
  "isWhiteSpace c \<longleftrightarrow>
     c = 0x9 \<or> c = 0xA \<or> c = 0xB \<or> c = 0xC \<or> c = 0xD \<or> c = 0x20 \<or> c = 0xA0 \<or>
     c = 0x1680 \<or> (0x2000 \<le> c \<and> c \<le> 0x200A) \<or> c = 0x2028 \<or> c = 0x2029 \<or>
     c = 0x202F \<or> c = 0x205F \<or> c = 0x3000 \<or> c = 0xFEFF"

definition trim :: "jsstring \<Rightarrow> jsstring" where
  "trim s = rev (dropWhile isWhiteSpace (rev (dropWhile isWhiteSpace s)))"

definition startsWith :: "jsstring \<Rightarrow> jsstring \<Rightarrow> bool" where
  "startsWith s p \<longleftrightarrow> take (length p) s = p"

text \<open>
  The class \<open>[a-z0-9]\<close> under the flag \<open>i\<close> (no flag \<open>u\<close>): the ASCII letters of
  both cases and the digits. A code unit from 128 on never folds to an ASCII letter.
\<close>

definition isAlnum :: "16 word \<Rightarrow> bool" where
  "isAlnum c \<longleftrightarrow>
     (0x61 \<le> c \<and> c \<le> 0x7A) \<or> (0x30 \<le> c \<and> c \<le> 0x39) \<or> (0x41 \<le> c \<and> c \<le> 0x5A)"

definition isLowerAlnum :: "16 word \<Rightarrow> bool" where
  "isLowerAlnum c \<longleftrightarrow> (0x61 \<le> c \<and> c \<le> 0x7A) \<or> (0x30 \<le> c \<and> c \<le> 0x39)"

text \<open>\<open>s.replace(/[^a-z0-9]/gi, '_')\<close>: every code unit outside the class becomes one \<open>_\<close>.\<close>

definition replaceNonAlnum :: "jsstring \<Rightarrow> jsstring" where
  "replaceNonAlnum s = map (\<lambda>c. if isAlnum c then c else 0x5F) s"

text \<open>
  \<open>toLowerCase\<close> on ASCII code units: \<open>A\<close> to \<open>Z\<close> move to \<open>a\<close> to \<open>z\<close>, the
  other ASCII units stay. The source applies it to the result of the replacement above
  only, which holds nothing but ASCII letters, digits and \<open>_\<close> (lemma
  \<open>replaceNonAlnum_units\<close>); units from 128 on are left as they are here and never reach
  this function.
\<close>

definition toLowerUnit :: "16 word \<Rightarrow> 16 word" where
  "toLowerUnit c = (if 0x41 \<le> c \<and> c \<le> 0x5A then c + 0x20 else c)"

definition toLowerCase :: "jsstring \<Rightarrow> jsstring" where
  "toLowerCase s = map toLowerUnit s"

text \<open>Script 1, \<open>sanitizeFilename\<close>.\<close>

definition sanitizeFilename :: "jsstring \<Rightarrow> jsstring" where
  "sanitizeFilename filename = toLowerCase (replaceNonAlnum filename)"

text \<open>\<open>s.replace(/_/g, ' ')\<close> of script 2.\<close>

definition replaceUnderscores :: "jsstring \<Rightarrow> jsstring" where
  "replaceUnderscores s = map (\<lambda>c. if c = 0x5F then 0x20 else c) s"

text \<open>
  \<open>path.basename(file, ext)\<close> for a directory entry, which holds no path separator:
  the empty string when the entry is the extension itself, the entry without the
  extension when it ends with it, the entry otherwise.
\<close>

definition endsWith :: "jsstring \<Rightarrow> jsstring \<Rightarrow> bool" where
  "endsWith s p \<longleftrightarrow> length p \<le> length s \<and> drop (length s - length p) s = p"

definition basename :: "jsstring \<Rightarrow> jsstring \<Rightarrow> jsstring" where
  "basename file ext =
     (if ext \<noteq> [] \<and> endsWith file ext then take (length file - length ext) file else file)"

text \<open>Script 2, the description that \<open>generateJSONL\<close> derives from a file name.\<close>

definition descriptionOfFile :: "jsstring \<Rightarrow> jsstring" where
  "descriptionOfFile file = replaceUnderscores (basename file (js ''.svg''))"

text \<open>
  \<open>path.join(a, b)\<close> with \<open>/\<close> as the separator: the segments that are not empty are
  joined by \<open>/\<close> and the result is normalised. Normalisation splits the path at the
  separators, drops the empty segments and the segments \<open>.\<close>, lets a segment \<open>..\<close> remove
  the segment kept before it (or keeps it, in a relative path, when there is none to
  remove), and puts a leading and a trailing separator back.
\<close>

fun splitOn :: "16 word \<Rightarrow> jsstring \<Rightarrow> jsstring list" where
  "splitOn sep [] = [[]]"
| "splitOn sep (c # cs) =
     (if c = sep then [] # splitOn sep cs
      else (case splitOn sep cs of [] \<Rightarrow> [[c]] | s # ss \<Rightarrow> (c # s) # ss))"

text \<open>One step of the normalisation: the segments kept so far, the last one first.\<close>

definition pushSegment :: "bool \<Rightarrow> jsstring \<Rightarrow> jsstring list \<Rightarrow> jsstring list" where
  "pushSegment allowAboveRoot s kept =
     (if s = [] \<or> s = js ''.'' then kept
      else if s = js ''..'' then
        (case kept of
           [] \<Rightarrow> if allowAboveRoot then [s] else []
         | k # ks \<Rightarrow> if k = js ''..'' then (if allowAboveRoot then s # kept else kept) else ks)
      else s # kept)"

fun joinSegments :: "jsstring list \<Rightarrow> jsstring" where
  "joinSegments [] = []"
| "joinSegments [s] = s"
| "joinSegments (s # ss) = s @ js ''/'' @ joinSegments ss"

definition path_normalize :: "jsstring \<Rightarrow> jsstring" where
  "path_normalize p =
     (case p of
        [] \<Rightarrow> js ''.''
      | c # _ \<Rightarrow>
          (let isAbsolute = (c = 0x2F);
               trailingSeparator = (last p = 0x2F);
               q = joinSegments (rev (fold (pushSegment (\<not> isAbsolute)) (splitOn 0x2F p) []))
           in if q = [] then (if isAbsolute then js ''/''
                              else if trailingSeparator then js ''./'' else js ''.'')
              else (if isAbsolute then js ''/'' else []) @ q @
                   (if trailingSeparator then js ''/'' else [])))"

definition path_join :: "jsstring \<Rightarrow> jsstring \<Rightarrow> jsstring" where
  "path_join a b =
     (if a = [] \<and> b = [] then js ''.''
      else path_normalize (if a = [] then b else if b = [] then a else a @ js ''/'' @ b))"

section \<open>The configuration and the model collaborator\<close>

text \<open>
  The fields of \<open>Config\<close> that the control flow reads. Counts and delays are the
  non-negative whole numbers a configuration holds; the model name, the temperature, the
  token limit and the key only travel inside a request and decide no branch.
\<close>

record config =
  outputCount :: nat
  outputFolder :: jsstring
  maxRetries :: nat
  retryDelay :: nat
  generationDelay :: nat

text \<open>
  A non-streamed response, as far as the optional chain
  \<open>choices?.[0]?.message?.content\<close> looks into it: every level may be absent.
\<close>

datatype message = Message (content: "jsstring option")

datatype choice = Choice (message: "message option")

datatype completion = Completion (choices: "choice list option")

text \<open>
  A streamed response is a finite sequence of items: a chunk, or a failure of the
  iteration itself. Of a chunk the source reads \<open>choices[0].finish_reason\<close> and
  \<open>choices[0].delta?.content\<close>; \<open>None\<close> is an absent or null field.
\<close>

datatype delta = Delta (delta_content: "jsstring option")

datatype chunk_choice = ChunkChoice (finish_reason: "jsstring option") (delta: "delta option")

datatype chunk = Chunk (chunk_choices: "chunk_choice list")

datatype stream_item = Yield chunk | Raise

datatype 'a reply = Rejected | Resolved 'a

text \<open>
  The collaborator behind \<open>portkey.chat.completions.create\<close>: what the call number
  \<open>n\<close> of the run (counted from 0) answers when it is made without streaming and when
  it is made with streaming. The prompts are built from random choices and cannot fail;
  an answer that depends on them is an answer that depends on the call.
\<close>

record client =
  chat :: "nat \<Rightarrow> completion reply"
  chatStream :: "nat \<Rightarrow> stream_item list reply"

section \<open>Effects\<close>

text \<open>
  The run is observed through the calls to the collaborator, the waits, the directory
  creation, the file writes and, of the console output, the one line that each loop
  iteration prints right after its idea call (line 207 or line 212 of script 1).
\<close>

datatype request = IdeaRequest "jsstring list" | SvgRequest jsstring

datatype event =
    Create request
  | Sleep nat
  | MkDir jsstring
  | WriteFile jsstring jsstring
  | LogSkipIdea nat
  | LogProcessing nat jsstring

record world =
  calls :: nat
  trace :: "event list"

definition emit :: "event \<Rightarrow> world \<Rightarrow> world" where
  "emit e w = w\<lparr>trace := trace w @ [e]\<rparr>"

definition create :: "request \<Rightarrow> world \<Rightarrow> world" where
  "create req w = emit (Create req) (w\<lparr>calls := Suc (calls w)\<rparr>)"

definition sleep :: "nat \<Rightarrow> world \<Rightarrow> world" where
  "sleep ms w = emit (Sleep ms) w"

text \<open>
  What a step can throw: the collaborator's call or stream, a read of a field of a chunk
  that is not there, and an operation of the file system.
\<close>

datatype exn = ApiError | TypeError | FsError

section \<open>Script 1: the idea call\<close>

text \<open>Line 117: the trimmed content, or the empty string when a level is absent.\<close>

definition ideaOf :: "completion \<Rightarrow> jsstring" where
  "ideaOf c =
     (case choices c of
        None \<Rightarrow> []
      | Some [] \<Rightarrow> []
      | Some (ch # _) \<Rightarrow>
          (case message ch of
             None \<Rightarrow> []
           | Some m \<Rightarrow> (case content m of None \<Rightarrow> [] | Some t \<Rightarrow> trim t)))"

text \<open>The body of the \<open>try\<close> block of \<open>generateNewIdea\<close>, given the answer of the call.\<close>

definition ideaAttempt :: "completion reply \<Rightarrow> exn + jsstring" where
  "ideaAttempt r = (case r of Rejected \<Rightarrow> Inl ApiError | Resolved c \<Rightarrow> Inr (ideaOf c))"

text \<open>
  \<open>generateNewIdea\<close>: the loop over \<open>attempt\<close>, entered at 1. \<open>None\<close> is \<open>null\<close>.
\<close>

function generateNewIdea_from ::
  "config \<Rightarrow> client \<Rightarrow> jsstring list \<Rightarrow> nat \<Rightarrow> world \<Rightarrow> jsstring option \<times> world" where
  "generateNewIdea_from cfg cl used attempt w =
     (if attempt \<le> maxRetries cfg then
        (let w1 = create (IdeaRequest used) w in
         case ideaAttempt (chat cl (calls w)) of
           Inr newIdea \<Rightarrow> (Some newIdea, w1)
         | Inl e \<Rightarrow>
             generateNewIdea_from cfg cl used (Suc attempt)
               (if attempt < maxRetries cfg then sleep (retryDelay cfg) w1 else w1))
      else (None, w))"
  by pat_completeness auto
termination
  by (relation "measure (\<lambda>(cfg, cl, used, attempt, w). Suc (maxRetries cfg) - attempt)") auto

definition generateNewIdea ::
  "config \<Rightarrow> client \<Rightarrow> jsstring list \<Rightarrow> world \<Rightarrow> jsstring option \<times> world" where
  "generateNewIdea cfg cl used w = generateNewIdea_from cfg cl used 1 w"

section \<open>Script 1: the artifact call\<close>

record generation =
  description :: jsstring
  svg :: jsstring

text \<open>\<open>choices[0].delta?.content\<close>.\<close>

definition deltaText :: "chunk_choice \<Rightarrow> jsstring option" where
  "deltaText c = (case delta c of None \<Rightarrow> None | Some d \<Rightarrow> delta_content d)"

text \<open>
  Lines 152 to 159, the loop over the stream with the string accumulated so far. A chunk
  without a first choice makes the read of \<open>finish_reason\<close> fail; a content that is
  absent or empty is not appended.
\<close>

fun accumulate :: "stream_item list \<Rightarrow> jsstring \<Rightarrow> exn + jsstring" where
  "accumulate [] acc = Inr acc"
| "accumulate (Raise # rest) acc = Inl ApiError"
| "accumulate (Yield ch # rest) acc =
     (case chunk_choices ch of
        [] \<Rightarrow> Inl TypeError
      | c # _ \<Rightarrow>
          if finish_reason c = Some (js ''stop'') \<or> finish_reason c = Some (js ''length'')
          then Inr acc
          else accumulate rest
                 (case deltaText c of
                    None \<Rightarrow> acc
                  | Some t \<Rightarrow> if t \<noteq> [] then acc @ t else acc))"

text \<open>
  The body of the \<open>try\<close> block of \<open>generateSVGWithGPT4\<close>, given the answer of the
  call: the accumulation starts from the empty string (line 151).
\<close>

definition svgAttempt :: "jsstring \<Rightarrow> stream_item list reply \<Rightarrow> exn + generation" where
  "svgAttempt d r =
     (case r of
        Rejected \<Rightarrow> Inl ApiError
      | Resolved st \<Rightarrow>
          (case accumulate st [] of
             Inl e \<Rightarrow> Inl e
           | Inr accumulatedResponse \<Rightarrow>
               Inr \<lparr>description = d, svg = trim accumulatedResponse\<rparr>))"

function generateSVGWithGPT4_from ::
  "config \<Rightarrow> client \<Rightarrow> jsstring \<Rightarrow> nat \<Rightarrow> world \<Rightarrow> generation option \<times> world" where
  "generateSVGWithGPT4_from cfg cl d attempt w =
     (if attempt \<le> maxRetries cfg then
        (let w1 = create (SvgRequest d) w in
         case svgAttempt d (chatStream cl (calls w)) of
           Inr result \<Rightarrow> (Some result, w1)
         | Inl e \<Rightarrow>
             generateSVGWithGPT4_from cfg cl d (Suc attempt)
               (if attempt < maxRetries cfg then sleep (retryDelay cfg) w1 else w1))
      else (None, w))"
  by pat_completeness auto
termination
  by (relation "measure (\<lambda>(cfg, cl, d, attempt, w). Suc (maxRetries cfg) - attempt)") auto

definition generateSVGWithGPT4 ::
  "config \<Rightarrow> client \<Rightarrow> jsstring \<Rightarrow> world \<Rightarrow> generation option \<times> world" where
  "generateSVGWithGPT4 cfg cl d w = generateSVGWithGPT4_from cfg cl d 1 w"

section \<open>The file system\<close>

text \<open>
  The file system as script 1 meets it: whether the output folder exists when the run
  starts, whether \<open>fs.mkdirSync\<close> throws, and whether \<open>fs.writeFileSync\<close> throws for a
  path. A write may fail at one time and succeed at another; the clock of the run is the
  number of calls made to the model collaborator so far, and every write follows an
  artifact call of its own.
\<close>

record fsys =
  folderExists :: bool
  mkdirThrows :: bool
  writeThrows :: "nat \<Rightarrow> jsstring \<Rightarrow> bool"

text \<open>\<open>fs.writeFileSync(path, data)\<close>: the file is there afterwards, or the call throws.\<close>

definition writeFileSync :: "fsys \<Rightarrow> jsstring \<Rightarrow> jsstring \<Rightarrow> world \<Rightarrow> exn + world" where
  "writeFileSync fs p d w =
     (if writeThrows fs (calls w) p then Inl FsError else Inr (emit (WriteFile p d) w))"

section \<open>Script 1: validation and the generation loop\<close>

definition validateSVG :: "generation \<Rightarrow> bool" where
  "validateSVG data \<longleftrightarrow> startsWith (trim (svg data)) (js ''<svg'')"

text \<open>
  Lines 216 to 223: the write happens for a result that is not null and is valid. It is
  inside no \<open>try\<close>, so what it throws leaves \<open>generateAndSaveSVGs\<close>.
\<close>

definition saveIfValid ::
  "fsys \<Rightarrow> config \<Rightarrow> jsstring \<Rightarrow> generation option \<Rightarrow> world \<Rightarrow> exn + world" where
  "saveIfValid fs cfg newIdea result w =
     (case result of
        None \<Rightarrow> Inr w
      | Some r \<Rightarrow>
          if validateSVG r
          then writeFileSync fs
                 (path_join (outputFolder cfg) (sanitizeFilename newIdea @ js ''.svg'')) (svg r) w
          else Inr w)"

text \<open>Lines 226 to 229.\<close>

definition pace :: "config \<Rightarrow> nat \<Rightarrow> world \<Rightarrow> world" where
  "pace cfg i w =
     (if int i < int (outputCount cfg) - 1 then sleep (generationDelay cfg) w else w)"

text \<open>
  A step of the loop ends in \<open>Inr\<close> with \<open>usedPrompts\<close> and the world, or in \<open>Inl\<close>
  with what was thrown and the world at that moment.
\<close>

type_synonym outcome = "exn \<times> world + jsstring list \<times> world"

text \<open>
  Lines 211 to 229, the rest of an iteration once the idea is there: the idea joins
  \<open>usedPrompts\<close>, the artifact call is made, its result is written when valid, and the
  loop waits unless the iteration is the last. A write that throws ends the iteration
  there.
\<close>

definition processIdea ::
  "fsys \<Rightarrow> config \<Rightarrow> client \<Rightarrow> nat \<Rightarrow> jsstring \<Rightarrow> jsstring list \<times> world \<Rightarrow> outcome" where
  "processIdea fs cfg cl i newIdea st =
     (let w2 = emit (LogProcessing (i + 1) newIdea) (snd st);
          rw = generateSVGWithGPT4 cfg cl newIdea w2
      in case saveIfValid fs cfg newIdea (fst rw) (snd rw) of
           Inl e \<Rightarrow> Inl (e, snd rw)
         | Inr w4 \<Rightarrow> Inr (fst st @ [newIdea], pace cfg i w4))"

text \<open>
  The body of the \<open>for\<close> loop of \<open>generateAndSaveSVGs\<close> for the index \<open>i\<close>, on the
  pair of \<open>usedPrompts\<close> and the world. \<open>!newIdea\<close> holds for \<open>null\<close> and for the
  empty string; then the iteration ends at \<open>continue\<close>.
\<close>

definition iteration ::
  "fsys \<Rightarrow> config \<Rightarrow> client \<Rightarrow> nat \<Rightarrow> jsstring list \<times> world \<Rightarrow> outcome" where
  "iteration fs cfg cl i st =
     (let iw = generateNewIdea cfg cl (fst st) (snd st) in
      case fst iw of
        None \<Rightarrow> Inr (fst st, emit (LogSkipIdea (i + 1)) (snd iw))
      | Some newIdea \<Rightarrow>
          if newIdea = [] then Inr (fst st, emit (LogSkipIdea (i + 1)) (snd iw))
          else processIdea fs cfg cl i newIdea (fst st, snd iw))"

text \<open>The \<open>for\<close> loop: what an iteration throws ends it.\<close>

function loop ::
  "fsys \<Rightarrow> config \<Rightarrow> client \<Rightarrow> nat \<Rightarrow> jsstring list \<times> world \<Rightarrow> outcome" where
  "loop fs cfg cl i st =
     (if i < outputCount cfg then
        (case iteration fs cfg cl i st of
           Inl a \<Rightarrow> Inl a
         | Inr st' \<Rightarrow> loop fs cfg cl (Suc i) st')
      else Inr st)"
  by pat_completeness auto
termination
  by (relation "measure (\<lambda>(fs, cfg, cl, i, st). outputCount cfg - i)") auto

text \<open>
  \<open>generateAndSaveSVGs\<close>: the folder is created when it is not there (lines 196 to 198,
  inside no \<open>try\<close>), then the loop runs. \<open>Inl\<close> is the rejection that the guard of line
  237 receives.
\<close>

definition start :: "world" where
  "start = \<lparr>calls = 0, trace = []\<rparr>"

definition generateAndSaveSVGs :: "fsys \<Rightarrow> config \<Rightarrow> client \<Rightarrow> outcome" where
  "generateAndSaveSVGs fs cfg cl =
     (if folderExists fs then loop fs cfg cl 0 ([], start)
      else if mkdirThrows fs then Inl (FsError, start)
      else loop fs cfg cl 0 ([], emit (MkDir (outputFolder cfg)) start))"

text \<open>The world in which a step ended, whichever way it ended.\<close>

definition worldOf :: "outcome \<Rightarrow> world" where
  "worldOf r = (case r of Inl a \<Rightarrow> snd a | Inr st \<Rightarrow> snd st)"

section \<open>Observations on a trace\<close>



fun isCreate :: "event \<Rightarrow> bool" where
  "isCreate (Create r) = True"
| "isCreate e = False"

fun isSleep :: "event \<Rightarrow> bool" where
  "isSleep (Sleep n) = True"
| "isSleep e = False"




text \<open>A stretch of a trace that holds calls to the collaborator and waits only.\<close>

definition callEvents :: "event list \<Rightarrow> bool" where
  "callEvents xs \<longleftrightarrow> list_all (\<lambda>e. isCreate e \<or> isSleep e) xs"

text \<open>\<open>k\<close> failed attempts, each followed by its wait.\<close>

definition attempts :: "request \<Rightarrow> nat \<Rightarrow> nat \<Rightarrow> event list" where
  "attempts req delay k = concat (replicate k [Create req, Sleep delay])"

text \<open>
  The file that an iteration with the idea \<open>newIdea\<close> and the given result of the
  artifact call is expected to write: one file for a result whose trimmed text starts with
  \<open><svg\<close>, none otherwise.
\<close>

definition persisted :: "config \<Rightarrow> jsstring \<Rightarrow> generation option \<Rightarrow> event list" where
  "persisted cfg newIdea result =
     (case result of
        None \<Rightarrow> []
      | Some r \<Rightarrow>
          if startsWith (trim (svg r)) (js ''<svg'')
          then [WriteFile (path_join (outputFolder cfg) (sanitizeFilename newIdea @ js ''.svg'')) (svg r)]
          else [])"

text \<open>
  The write that an iteration has to make throws: there is a file to write and the file
  system refuses its path at that moment.
\<close>

definition writeFails :: "fsys \<Rightarrow> config \<Rightarrow> jsstring \<Rightarrow> generation option \<Rightarrow> world \<Rightarrow> bool" where
  "writeFails fs cfg newIdea result w \<longleftrightarrow>
     persisted cfg newIdea result \<noteq> [] \<and>
     writeThrows fs (calls w) (path_join (outputFolder cfg) (sanitizeFilename newIdea @ js ''.svg''))"

section \<open>Observations on a chunk\<close>

text \<open>
  A chunk signals completion when its first choice has the finish reason \<open>stop\<close> or
  \<open>length\<close>; the text it carries is the content of the delta of its first choice, empty
  when there is none.
\<close>

definition completes :: "chunk \<Rightarrow> bool" where
  "completes ch \<longleftrightarrow>
     (case chunk_choices ch of
        [] \<Rightarrow> False
      | c # _ \<Rightarrow> finish_reason c = Some (js ''stop'') \<or> finish_reason c = Some (js ''length''))"

definition chunkText :: "chunk \<Rightarrow> jsstring" where
  "chunkText ch =
     (case chunk_choices ch of
        [] \<Rightarrow> []
      | c # _ \<Rightarrow> (case deltaText c of None \<Rightarrow> [] | Some t \<Rightarrow> t))"

section \<open>Mock collaborators and the configuration of the source\<close>

definition config0 :: config where
  "config0 = \<lparr>outputCount = 10, outputFolder = js ''svgs'', maxRetries = 3,
               retryDelay = 3000, generationDelay = 2000\<rparr>"

text \<open>A chunk with a text and no finish reason; a chunk with a finish reason.\<close>

definition textChunk :: "jsstring \<Rightarrow> chunk" where
  "textChunk t = Chunk [ChunkChoice None (Some (Delta (Some t)))]"

definition finishChunk :: "jsstring \<Rightarrow> jsstring option \<Rightarrow> chunk" where
  "finishChunk reason t = Chunk [ChunkChoice (Some reason) (Some (Delta t))]"

text \<open>A response with one choice and the given content; a stream of texts closed by \<open>stop\<close>.\<close>

definition completionOf :: "jsstring \<Rightarrow> completion" where
  "completionOf t = Completion (Some [Choice (Some (Message (Some t)))])"

definition streamOf :: "jsstring list \<Rightarrow> stream_item list" where
  "streamOf ts = map (\<lambda>t. Yield (textChunk t)) ts @ [Yield (finishChunk (js ''stop'') None)]"

text \<open>A collaborator that answers the calls from a list and rejects every call after it.\<close>

definition script :: "'a reply list \<Rightarrow> nat \<Rightarrow> 'a reply" where
  "script rs n = (if n < length rs then rs ! n else Rejected)"

definition failingClient :: client where
  "failingClient = \<lparr>chat = (\<lambda>n. Rejected), chatStream = (\<lambda>n. Rejected)\<rparr>"

text \<open>
  A file system with the folder in place where every write succeeds; one where every
  write throws, as for a folder that cannot be written to.
\<close>

definition reliableFs :: fsys where
  "reliableFs = \<lparr>folderExists = True, mkdirThrows = False, writeThrows = (\<lambda>n p. False)\<rparr>"

definition readOnlyFs :: fsys where
  "readOnlyFs = \<lparr>folderExists = True, mkdirThrows = True, writeThrows = (\<lambda>n p. True)\<rparr>"

text \<open>A collaborator whose every idea and every artifact are valid.\<close>

definition validClient :: client where
  "validClient =
     \<lparr>chat = (\<lambda>n. Resolved (completionOf (js ''a blue dog''))),
      chatStream = (\<lambda>n. Resolved (streamOf [js ''<svg/>'']))\<rparr>"

text \<open>The configuration of the source with two iterations instead of ten.\<close>

definition config2 :: config where
  "config2 = config0\<lparr>outputCount := 2\<rparr>"

text \<open>
  A collaborator whose first two calls fail (the second streamed one after a first
  fragment) and whose third call succeeds.
\<close>

definition flakyClient :: client where
  "flakyClient =
     \<lparr>chat = script [Rejected, Rejected, Resolved (completionOf (js ''a red cat''))],
      chatStream = script [Rejected, Resolved [Yield (textChunk (js ''<svg'')), Raise],
                           Resolved (streamOf [js ''<circle/>''])]\<rparr>"

text \<open>
  A collaborator for a run of two iterations: an idea, an artifact that is not valid, a
  second idea and a valid artifact.
\<close>

definition sessionClient :: client where
  "sessionClient =
     \<lparr>chat = script [Resolved (completionOf (js ''A red cat!'')), Rejected,
                     Resolved (completionOf (js ''a blue dog''))],
      chatStream = script [Rejected, Resolved (streamOf [js ''not svg'']), Rejected,
                           Resolved (streamOf [js '' <svg'', js ''/> ''])]\<rparr>"

section \<open>Facts about the string functions\<close>

lemma toLowerUnit_alnum: "isAlnum c \<Longrightarrow> isLowerAlnum (toLowerUnit c)"
  unfolding isAlnum_def isLowerAlnum_def toLowerUnit_def
  by (auto simp: word_le_nat_alt unat_word_ariths)

lemma toLowerUnit_fixed: "isAlnum c \<Longrightarrow> toLowerUnit c = c \<longleftrightarrow> isLowerAlnum c"
  unfolding isAlnum_def isLowerAlnum_def toLowerUnit_def
  by (auto simp: word_le_nat_alt)

lemma lowerAlnum_not_sep: "isLowerAlnum c \<Longrightarrow> c \<noteq> 0x5F \<and> c \<noteq> 0x20 \<and> isAlnum c"
  unfolding isAlnum_def isLowerAlnum_def
  by (auto simp: word_le_nat_alt)

lemma toLowerUnit_underscore: "toLowerUnit 0x5F = 0x5F"
  by (simp add: toLowerUnit_def)

lemma replaceNonAlnum_units: "c \<in> set (replaceNonAlnum s) \<Longrightarrow> isAlnum c \<or> c = 0x5F"
  by (auto simp: replaceNonAlnum_def)

lemma sanitizeFilename_map:
  "sanitizeFilename s = map (\<lambda>c. if isAlnum c then toLowerUnit c else 0x5F) s"
  by (simp add: sanitizeFilename_def toLowerCase_def replaceNonAlnum_def
      toLowerUnit_underscore cong: if_cong)

lemma sanitizeFilename_units:
  "c \<in> set (sanitizeFilename s) \<Longrightarrow> isLowerAlnum c \<or> c = 0x5F"
  by (auto simp: sanitizeFilename_map toLowerUnit_alnum)

lemma sanitizeFilename_cat:
  "sanitizeFilename (js ''A Cat! (v2)'') = js ''a_cat___v2_''"
  by (simp add: js_def sanitizeFilename_def toLowerCase_def replaceNonAlnum_def
      isAlnum_def toLowerUnit_def)

lemma basename_ext: "ext \<noteq> [] \<Longrightarrow> basename (s @ ext) ext = s"
  by (simp add: basename_def endsWith_def)

lemma js_svg_ne: "js ''.svg'' \<noteq> []"
  by (simp add: js_def)

lemma description_map:
  "descriptionOfFile (sanitizeFilename idea @ js ''.svg'') =
     map (\<lambda>c. if isAlnum c then toLowerUnit c else 0x20) idea"
proof -
  have "\<And>c. isAlnum c \<Longrightarrow> toLowerUnit c \<noteq> 0x5F"
    using toLowerUnit_alnum lowerAlnum_not_sep by blast
  then show ?thesis
    by (simp add: descriptionOfFile_def basename_ext js_svg_ne replaceUnderscores_def
        sanitizeFilename_map)
qed

lemma unit_fixed:
  "(if isAlnum c then toLowerUnit c else 0x20) = c \<longleftrightarrow> isLowerAlnum c \<or> c = 0x20"
proof (cases "isAlnum c")
  case True
  then have "c \<noteq> 0x20" by (auto simp: isAlnum_def)
  with True show ?thesis by (simp add: toLowerUnit_fixed)
next
  case False
  then show ?thesis using lowerAlnum_not_sep [of c] by auto
qed

section \<open>The file name of an idea\<close>

text \<open>
  C7, as the code has it. \<open>sanitizeFilename\<close> maps its input code unit by code unit: an
  ASCII letter or digit to its lower-case form, any other unit to one underscore. The
  result has the length of the input (a run of other units gives as many underscores), and
  holds lower-case ASCII letters, digits and underscores only. \<open>A Cat! (v2)\<close> becomes
  \<open>a_cat___v2_\<close>, with three underscores for the three units between \<open>t\<close> and \<open>v\<close>.
\<close>

theorem sanitizeFilename_charwise:
  "sanitizeFilename s = map (\<lambda>c. if isAlnum c then toLowerUnit c else 0x5F) s \<and>
   length (sanitizeFilename s) = length s \<and>
   (\<forall>c \<in> set (sanitizeFilename s). isLowerAlnum c \<or> c = 0x5F) \<and>
   sanitizeFilename (js ''A Cat! (v2)'') = js ''a_cat___v2_''"
proof -
  have "length (sanitizeFilename s) = length s"
    by (simp add: sanitizeFilename_map)
  moreover have "\<forall>c \<in> set (sanitizeFilename s). isLowerAlnum c \<or> c = 0x5F"
    using sanitizeFilename_units by blast
  ultimately show ?thesis
    using sanitizeFilename_map [of s] sanitizeFilename_cat by blast
qed

theorem sanitizeFilename_charwise_witness:
  "sanitizeFilename (js ''Hi there'') = js ''hi_there'' \<and>
   length (sanitizeFilename (js ''Hi there'')) = 8 \<and>
   0x68 \<in> set (sanitizeFilename (js ''Hi there'')) \<and> isLowerAlnum 0x68"
  using sanitizeFilename_charwise [of "js ''Hi there''"]
  by (simp add: js_def isAlnum_def toLowerUnit_def isLowerAlnum_def)

text \<open>
  C7 as the claim words it expects \<open>a_cat__v2_\<close>, with two underscores, for
  \<open>A Cat! (v2)\<close>; the function does not return that.
\<close>

theorem sanitizeFilename_expected_counterexample:
  "sanitizeFilename (js ''A Cat! (v2)'') \<noteq> js ''a_cat__v2_''"
  by (simp add: js_def sanitizeFilename_def toLowerCase_def replaceNonAlnum_def
      isAlnum_def toLowerUnit_def)

section \<open>From the file name back to a description\<close>

text \<open>
  C8, as the code has it. The description that script 2 derives from the file
  \<open>sanitizeFilename idea + ".svg"\<close> is the idea with every ASCII letter in lower case
  and every other unit than a letter or digit replaced by a space. It is the idea itself
  exactly when the idea holds lower-case ASCII letters, digits and spaces only.
\<close>

theorem description_of_sanitized:
  "descriptionOfFile (sanitizeFilename idea @ js ''.svg'') =
     map (\<lambda>c. if isAlnum c then toLowerUnit c else 0x20) idea \<and>
   (descriptionOfFile (sanitizeFilename idea @ js ''.svg'') = idea \<longleftrightarrow>
     (\<forall>c \<in> set idea. isLowerAlnum c \<or> c = 0x20))"
proof -
  have "(map (\<lambda>c. if isAlnum c then toLowerUnit c else 0x20) idea = idea) \<longleftrightarrow>
        (\<forall>c \<in> set idea. isLowerAlnum c \<or> c = 0x20)"
    using map_eq_conv [of "\<lambda>c. if isAlnum c then toLowerUnit c else 0x20" idea id]
    by (simp add: unit_fixed)
  then show ?thesis by (simp only: description_map simp_thms)
qed

theorem description_of_sanitized_witness:
  "descriptionOfFile (sanitizeFilename (js ''a red cat 2'') @ js ''.svg'') = js ''a red cat 2''"
proof -
  have h: "\<forall>c \<in> set (js ''a red cat 2''). isLowerAlnum c \<or> c = 0x20"
    by (simp add: js_def isLowerAlnum_def)
  with description_of_sanitized [of "js ''a red cat 2''"] show ?thesis by blast
qed

text \<open>
  C8 as the claim words it: the description is the original idea, for every idea. For
  \<open>A Cat! (v2)\<close> it is \<open>a cat   v2 \<close>.
\<close>

theorem description_roundtrip_counterexample:
  "descriptionOfFile (sanitizeFilename (js ''A Cat! (v2)'') @ js ''.svg'') = js ''a cat   v2 '' \<and>
   descriptionOfFile (sanitizeFilename (js ''A Cat! (v2)'') @ js ''.svg'') \<noteq> js ''A Cat! (v2)''"
  by (simp add: js_def sanitizeFilename_def toLowerCase_def replaceNonAlnum_def isAlnum_def
      toLowerUnit_def descriptionOfFile_def basename_def endsWith_def replaceUnderscores_def)

section \<open>Facts about the stream accumulation\<close>

lemma accumulate_fragment:
  "chunk_choices ch \<noteq> [] \<Longrightarrow> \<not> completes ch \<Longrightarrow>
   accumulate (Yield ch # rest) acc = accumulate rest (acc @ chunkText ch)"
  by (cases "chunk_choices ch") (auto simp: completes_def chunkText_def split: option.splits)

lemma accumulate_finish:
  "completes ch \<Longrightarrow> accumulate (Yield ch # rest) acc = Inr acc"
  by (cases "chunk_choices ch") (auto simp: completes_def)

lemma accumulate_fragments:
  "\<forall>ch \<in> set pre. chunk_choices ch \<noteq> [] \<and> \<not> completes ch \<Longrightarrow>
   accumulate (map Yield pre @ rest) acc = accumulate rest (acc @ concat (map chunkText pre))"
proof (induction pre arbitrary: acc)
  case Nil
  then show ?case by simp
next
  case (Cons ch pre)
  then show ?case by (simp add: accumulate_fragment del: accumulate.simps)
qed

section \<open>Facts about the two retry loops\<close>

lemma attempts_Suc: "attempts req delay (Suc k) = Create req # Sleep delay # attempts req delay k"
  by (simp add: attempts_def)

lemma count_attempts:
  "length (filter isCreate (attempts req delay k)) = k"
  "length (filter isSleep (attempts req delay k)) = k"
  by (induction k) (simp_all add: attempts_def)

lemma calls_create [simp]: "calls (create req w) = Suc (calls w)"
  by (simp add: create_def emit_def)
lemma trace_create [simp]: "trace (create req w) = trace w @ [Create req]"
  by (simp add: create_def emit_def)
lemma calls_sleep [simp]: "calls (sleep ms w) = calls w"
  by (simp add: sleep_def emit_def)
lemma trace_sleep [simp]: "trace (sleep ms w) = trace w @ [Sleep ms]"
  by (simp add: sleep_def emit_def)
lemma calls_emit [simp]: "calls (emit e w) = calls w"
  by (simp add: emit_def)
lemma trace_emit [simp]: "trace (emit e w) = trace w @ [e]"
  by (simp add: emit_def)

declare generateNewIdea_from.simps [simp del] generateSVGWithGPT4_from.simps [simp del] loop.simps [simp del]

lemma idea_success_after:
  "\<forall>n. calls w \<le> n \<and> n < calls w + k \<longrightarrow> ideaAttempt (chat cl n) = Inl ApiError \<Longrightarrow>
   ideaAttempt (chat cl (calls w + k)) = Inr v \<Longrightarrow>
   attempt + k \<le> maxRetries cfg \<Longrightarrow>
   generateNewIdea_from cfg cl used attempt w =
     (Some v, \<lparr>calls = calls w + k + 1,
               trace = trace w @ attempts (IdeaRequest used) (retryDelay cfg) k @ [Create (IdeaRequest used)]\<rparr>)"
proof (induction k arbitrary: attempt w)
  case 0
  then show ?case
    by (subst generateNewIdea_from.simps) (simp add: attempts_def Let_def)
next
  case (Suc k)
  let ?w = "sleep (retryDelay cfg) (create (IdeaRequest used) w)"
  have fail: "ideaAttempt (chat cl (calls w)) = Inl ApiError"
    using Suc.prems(1) by simp
  have "\<forall>n. calls ?w \<le> n \<and> n < calls ?w + k \<longrightarrow> ideaAttempt (chat cl n) = Inl ApiError"
    using Suc.prems(1) by simp
  moreover have "ideaAttempt (chat cl (calls ?w + k)) = Inr v"
    using Suc.prems(2) by simp
  moreover have "Suc attempt + k \<le> maxRetries cfg"
    using Suc.prems(3) by simp
  ultimately have ih: "generateNewIdea_from cfg cl used (Suc attempt) ?w =
     (Some v, \<lparr>calls = calls ?w + k + 1,
               trace = trace ?w @ attempts (IdeaRequest used) (retryDelay cfg) k @ [Create (IdeaRequest used)]\<rparr>)"
    by (rule Suc.IH)
  have lt: "attempt < maxRetries cfg" "attempt \<le> maxRetries cfg"
    using Suc.prems(3) by simp_all
  show ?case
    by (subst generateNewIdea_from.simps) (simp add: fail lt ih Let_def attempts_Suc)
qed

lemma idea_exhausted:
  "\<forall>n. calls w \<le> n \<and> n < calls w + k \<longrightarrow> ideaAttempt (chat cl n) = Inl ApiError \<Longrightarrow>
   attempt + k = Suc (maxRetries cfg) \<Longrightarrow>
   generateNewIdea_from cfg cl used attempt w =
     (None, \<lparr>calls = calls w + k,
             trace = trace w @ attempts (IdeaRequest used) (retryDelay cfg) (k - 1) @
                     (if k = 0 then [] else [Create (IdeaRequest used)])\<rparr>)"
proof (induction k arbitrary: attempt w)
  case 0
  then show ?case
    by (subst generateNewIdea_from.simps) (simp add: attempts_def)
next
  case (Suc k)
  let ?w1 = "create (IdeaRequest used) w"
  let ?w = "if attempt < maxRetries cfg then sleep (retryDelay cfg) ?w1 else ?w1"
  have fail: "ideaAttempt (chat cl (calls w)) = Inl ApiError"
    using Suc.prems(1) by simp
  have le: "attempt \<le> maxRetries cfg"
    using Suc.prems(2) by simp
  have "\<forall>n. calls ?w \<le> n \<and> n < calls ?w + k \<longrightarrow> ideaAttempt (chat cl n) = Inl ApiError"
    using Suc.prems(1) by simp
  moreover have "Suc attempt + k = Suc (maxRetries cfg)"
    using Suc.prems(2) by simp
  ultimately have ih: "generateNewIdea_from cfg cl used (Suc attempt) ?w =
     (None, \<lparr>calls = calls ?w + k,
             trace = trace ?w @ attempts (IdeaRequest used) (retryDelay cfg) (k - 1) @
                     (if k = 0 then [] else [Create (IdeaRequest used)])\<rparr>)"
    by (rule Suc.IH)
  show ?case
  proof (cases k)
    case 0
    then have "\<not> attempt < maxRetries cfg" using Suc.prems(2) by simp
    with 0 ih show ?thesis
      by (subst generateNewIdea_from.simps) (simp add: fail le Let_def attempts_def)
  next
    case (Suc k')
    then have "attempt < maxRetries cfg" using Suc.prems(2) by simp
    with Suc ih show ?thesis
      by (subst generateNewIdea_from.simps) (simp add: fail le Let_def attempts_Suc)
  qed
qed

lemma callEvents_simps [simp]:
  "callEvents []"
  "callEvents (Create r # xs) = callEvents xs"
  "callEvents (Sleep n # xs) = callEvents xs"
  "callEvents (xs @ ys) = (callEvents xs \<and> callEvents ys)"
  by (simp_all add: callEvents_def)


lemma svg_exhausted:
  "\<forall>n. calls w \<le> n \<and> n < calls w + k \<longrightarrow> isl (svgAttempt d (chatStream cl n)) \<Longrightarrow>
   attempt + k = Suc (maxRetries cfg) \<Longrightarrow>
   generateSVGWithGPT4_from cfg cl d attempt w =
     (None, \<lparr>calls = calls w + k,
             trace = trace w @ attempts (SvgRequest d) (retryDelay cfg) (k - 1) @
                     (if k = 0 then [] else [Create (SvgRequest d)])\<rparr>)"
proof (induction k arbitrary: attempt w)
  case 0
  then show ?case
    by (subst generateSVGWithGPT4_from.simps) (simp add: attempts_def)
next
  case (Suc k)
  let ?w1 = "create (SvgRequest d) w"
  let ?w = "if attempt < maxRetries cfg then sleep (retryDelay cfg) ?w1 else ?w1"
  have "isl (svgAttempt d (chatStream cl (calls w)))"
    using Suc.prems(1) by simp
  then obtain e where fail: "svgAttempt d (chatStream cl (calls w)) = Inl e"
    by (cases "svgAttempt d (chatStream cl (calls w))") auto
  have le: "attempt \<le> maxRetries cfg"
    using Suc.prems(2) by simp
  have "\<forall>n. calls ?w \<le> n \<and> n < calls ?w + k \<longrightarrow> isl (svgAttempt d (chatStream cl n))"
    using Suc.prems(1) by simp
  moreover have "Suc attempt + k = Suc (maxRetries cfg)"
    using Suc.prems(2) by simp
  ultimately have ih: "generateSVGWithGPT4_from cfg cl d (Suc attempt) ?w =
     (None, \<lparr>calls = calls ?w + k,
             trace = trace ?w @ attempts (SvgRequest d) (retryDelay cfg) (k - 1) @
                     (if k = 0 then [] else [Create (SvgRequest d)])\<rparr>)"
    by (rule Suc.IH)
  show ?case
  proof (cases k)
    case 0
    then have "\<not> attempt < maxRetries cfg" using Suc.prems(2) by simp
    with 0 ih show ?thesis
      by (subst generateSVGWithGPT4_from.simps) (simp add: fail le Let_def attempts_def)
  next
    case (Suc k')
    then have "attempt < maxRetries cfg" using Suc.prems(2) by simp
    with Suc ih show ?thesis
      by (subst generateSVGWithGPT4_from.simps) (simp add: fail le Let_def attempts_Suc)
  qed
qed


lemma svg_success_after:
  "\<forall>n. calls w \<le> n \<and> n < calls w + k \<longrightarrow> isl (svgAttempt d (chatStream cl n)) \<Longrightarrow>
   svgAttempt d (chatStream cl (calls w + k)) = Inr r \<Longrightarrow>
   attempt + k \<le> maxRetries cfg \<Longrightarrow>
   generateSVGWithGPT4_from cfg cl d attempt w =
     (Some r, \<lparr>calls = calls w + k + 1,
               trace = trace w @ attempts (SvgRequest d) (retryDelay cfg) k @ [Create (SvgRequest d)]\<rparr>)"
proof (induction k arbitrary: attempt w)
  case 0
  then show ?case
    by (subst generateSVGWithGPT4_from.simps) (simp add: attempts_def Let_def)
next
  case (Suc k)
  let ?w = "sleep (retryDelay cfg) (create (SvgRequest d) w)"
  have "isl (svgAttempt d (chatStream cl (calls w)))"
    using Suc.prems(1) by simp
  then obtain e where fail: "svgAttempt d (chatStream cl (calls w)) = Inl e"
    by (cases "svgAttempt d (chatStream cl (calls w))") auto
  have "\<forall>n. calls ?w \<le> n \<and> n < calls ?w + k \<longrightarrow> isl (svgAttempt d (chatStream cl n))"
    using Suc.prems(1) by simp
  moreover have "svgAttempt d (chatStream cl (calls ?w + k)) = Inr r"
    using Suc.prems(2) by simp
  moreover have "Suc attempt + k \<le> maxRetries cfg"
    using Suc.prems(3) by simp
  ultimately have ih: "generateSVGWithGPT4_from cfg cl d (Suc attempt) ?w =
     (Some r, \<lparr>calls = calls ?w + k + 1,
               trace = trace ?w @ attempts (SvgRequest d) (retryDelay cfg) k @ [Create (SvgRequest d)]\<rparr>)"
    by (rule Suc.IH)
  have lt: "attempt < maxRetries cfg" "attempt \<le> maxRetries cfg"
    using Suc.prems(3) by simp_all
  show ?case
    by (subst generateSVGWithGPT4_from.simps) (simp add: fail lt ih Let_def attempts_Suc)
qed

lemma svg_result_last_attempt:
  "generateSVGWithGPT4_from cfg cl d attempt w = (Some r, w') \<Longrightarrow>
   calls w < calls w' \<and> svgAttempt d (chatStream cl (calls w' - 1)) = Inr r \<and>
   (\<forall>n. calls w \<le> n \<and> n < calls w' - 1 \<longrightarrow> isl (svgAttempt d (chatStream cl n)))"
proof (induction cfg cl d attempt w rule: generateSVGWithGPT4_from.induct)
  case (1 cfg cl d attempt w)
  let ?w1 = "create (SvgRequest d) w"
  let ?w = "if attempt < maxRetries cfg then sleep (retryDelay cfg) ?w1 else ?w1"
  have le: "attempt \<le> maxRetries cfg"
  proof (rule ccontr)
    assume "\<not> attempt \<le> maxRetries cfg"
    then have "generateSVGWithGPT4_from cfg cl d attempt w = (None, w)"
      by (subst generateSVGWithGPT4_from.simps) simp
    with "1.prems" show False by simp
  qed
  show ?case
  proof (cases "svgAttempt d (chatStream cl (calls w))")
    case (Inr v)
    with le have "generateSVGWithGPT4_from cfg cl d attempt w = (Some v, ?w1)"
      by (subst generateSVGWithGPT4_from.simps) (simp add: Let_def)
    with "1.prems" have "r = v" "w' = ?w1" by simp_all
    with Inr show ?thesis by auto
  next
    case (Inl e)
    with le have "generateSVGWithGPT4_from cfg cl d attempt w =
        generateSVGWithGPT4_from cfg cl d (Suc attempt) ?w"
      by (subst generateSVGWithGPT4_from.simps) (simp add: Let_def)
    with "1.prems" have "generateSVGWithGPT4_from cfg cl d (Suc attempt) ?w = (Some r, w')"
      by simp
    from "1.IH" [OF le refl Inl this]
    have ih: "calls ?w < calls w'" "svgAttempt d (chatStream cl (calls w' - 1)) = Inr r"
      "\<forall>n. calls ?w \<le> n \<and> n < calls w' - 1 \<longrightarrow> isl (svgAttempt d (chatStream cl n))"
      by simp_all
    have c: "calls ?w = Suc (calls w)" by simp
    have "isl (svgAttempt d (chatStream cl n))" if "calls w \<le> n" "n < calls w' - 1" for n
    proof (cases "n = calls w")
      case True
      with Inl show ?thesis by simp
    next
      case False
      with that c have "calls ?w \<le> n \<and> n < calls w' - 1" by simp
      with ih(3) show ?thesis by blast
    qed
    with ih(1,2) c show ?thesis by simp
  qed
qed

section \<open>Facts about paths\<close>

lemma path_join_examples:
  "path_join (js ''svgs'') (js ''x.svg'') = js ''svgs/x.svg''"
  "path_join (js ''./svgs'') (js ''x.svg'') = js ''svgs/x.svg''"
  "path_join (js ''svgs/'') (js ''x.svg'') = js ''svgs/x.svg''"
  "path_join [] (js ''x.svg'') = js ''x.svg''"
  "path_join (js ''/tmp/../out//'') (js ''x.svg'') = js ''/out/x.svg''"
  "path_join (js ''../a'') (js ''x.svg'') = js ''../a/x.svg''"
  "path_join (js ''a/..'') [] = js ''.''"
  by (simp_all add: path_join_def path_normalize_def pushSegment_def js_def)

section \<open>Facts about an iteration and the loop\<close>





lemma svg_result_last_event:
  "generateSVGWithGPT4_from cfg cl d attempt w = (Some r, w') \<Longrightarrow>
   trace w' \<noteq> [] \<and> last (trace w') = Create (SvgRequest d)"
proof (induction cfg cl d attempt w rule: generateSVGWithGPT4_from.induct)
  case (1 cfg cl d attempt w)
  let ?w1 = "create (SvgRequest d) w"
  let ?w = "if attempt < maxRetries cfg then sleep (retryDelay cfg) ?w1 else ?w1"
  have le: "attempt \<le> maxRetries cfg"
  proof (rule ccontr)
    assume "\<not> attempt \<le> maxRetries cfg"
    then have "generateSVGWithGPT4_from cfg cl d attempt w = (None, w)"
      by (subst generateSVGWithGPT4_from.simps) simp
    with "1.prems" show False by simp
  qed
  show ?case
  proof (cases "svgAttempt d (chatStream cl (calls w))")
    case (Inr v)
    with le have "generateSVGWithGPT4_from cfg cl d attempt w = (Some v, ?w1)"
      by (subst generateSVGWithGPT4_from.simps) (simp add: Let_def)
    with "1.prems" have "w' = ?w1" by simp
    then show ?thesis by simp
  next
    case (Inl e)
    with le have "generateSVGWithGPT4_from cfg cl d attempt w =
        generateSVGWithGPT4_from cfg cl d (Suc attempt) ?w"
      by (subst generateSVGWithGPT4_from.simps) (simp add: Let_def)
    with "1.prems" have "generateSVGWithGPT4_from cfg cl d (Suc attempt) ?w = (Some r, w')"
      by simp
    from "1.IH" [OF le refl Inl this] show ?thesis .
  qed
qed

lemma iteration_skip:
  "fst (generateNewIdea cfg cl used w) = None \<or> fst (generateNewIdea cfg cl used w) = Some [] \<Longrightarrow>
   iteration fs cfg cl i (used, w) =
     Inr (used, emit (LogSkipIdea (i + 1)) (snd (generateNewIdea cfg cl used w)))"
  by (auto simp: iteration_def Let_def)

lemma iteration_process:
  "fst (generateNewIdea cfg cl used w) = Some newIdea \<Longrightarrow> newIdea \<noteq> [] \<Longrightarrow>
   iteration fs cfg cl i (used, w) =
     processIdea fs cfg cl i newIdea (used, snd (generateNewIdea cfg cl used w))"
  by (simp add: iteration_def Let_def)

lemma saveIfValid_eq:
  "saveIfValid fs cfg newIdea result w =
     (if writeFails fs cfg newIdea result w then Inl FsError
      else Inr (w\<lparr>trace := trace w @ persisted cfg newIdea result\<rparr>))"
  by (simp add: saveIfValid_def writeFileSync_def writeFails_def persisted_def validateSVG_def
      emit_def split: option.splits)


lemma calls_pace [simp]: "calls (pace cfg i w) = calls w"
  by (simp add: pace_def)










lemma idea_all_rejected:
  assumes "\<forall>j<maxRetries cfg. chat cl (calls w + j) = Rejected"
  shows "generateNewIdea cfg cl used w =
     (None, \<lparr>calls = calls w + maxRetries cfg,
             trace = trace w @ attempts (IdeaRequest used) (retryDelay cfg) (maxRetries cfg - 1) @
                     (if maxRetries cfg = 0 then [] else [Create (IdeaRequest used)])\<rparr>)"
proof -
  have "ideaAttempt (chat cl n) = Inl ApiError" if "calls w \<le> n" "n < calls w + maxRetries cfg" for n
  proof -
    from that have "n - calls w < maxRetries cfg" "calls w + (n - calls w) = n" by simp_all
    with assms have "chat cl n = Rejected" by metis
    then show ?thesis by (simp add: ideaAttempt_def)
  qed
  then show ?thesis
    unfolding generateNewIdea_def by (intro idea_exhausted) simp_all
qed

lemma svg_all_failed:
  assumes "\<forall>j<maxRetries cfg. isl (svgAttempt d (chatStream cl (calls w + j)))"
  shows "generateSVGWithGPT4 cfg cl d w =
     (None, \<lparr>calls = calls w + maxRetries cfg,
             trace = trace w @ attempts (SvgRequest d) (retryDelay cfg) (maxRetries cfg - 1) @
                     (if maxRetries cfg = 0 then [] else [Create (SvgRequest d)])\<rparr>)"
proof -
  have "isl (svgAttempt d (chatStream cl n))" if "calls w \<le> n" "n < calls w + maxRetries cfg" for n
  proof -
    from that have "n - calls w < maxRetries cfg" "calls w + (n - calls w) = n" by simp_all
    with assms show ?thesis by metis
  qed
  then show ?thesis
    unfolding generateSVGWithGPT4_def by (intro svg_exhausted) simp_all
qed





section \<open>The stream accumulator\<close>

text \<open>
  C5. The accumulation takes the fragments in their order and appends the text of each to
  the string built so far. At the first fragment that signals completion (finish reason
  \<open>stop\<close> or \<open>length\<close>) it returns the string built so far: the content of that
  fragment and everything queued behind it, whatever it is, are left out. A stream that
  ends without such a fragment gives the concatenation of all its texts. For the
  fragments \<open><svg\<close>, \<open> width\<close> and a stop signal the result is \<open><svg width\<close>.
\<close>

theorem accumulate_until_completion:
  assumes "\<forall>ch \<in> set pre. chunk_choices ch \<noteq> [] \<and> \<not> completes ch"
  shows "(completes fin \<longrightarrow>
           accumulate (map Yield pre @ Yield fin # rest) acc =
             Inr (acc @ concat (map chunkText pre))) \<and>
         accumulate (map Yield pre) acc = Inr (acc @ concat (map chunkText pre)) \<and>
         accumulate (Yield (textChunk (js ''<svg'')) # Yield (textChunk (js '' width'')) #
                     Yield (finishChunk (js ''stop'') None) # rest) [] = Inr (js ''<svg width'')"
proof -
  have a: "accumulate (map Yield pre @ Yield fin # rest) acc =
             Inr (acc @ concat (map chunkText pre))"
    if "completes fin"
    using assms that by (simp add: accumulate_fragments accumulate_finish del: accumulate.simps)
  have b: "accumulate (map Yield pre) acc = Inr (acc @ concat (map chunkText pre))"
    using accumulate_fragments [OF assms, of "[]" acc] by simp
  have c: "accumulate (Yield (textChunk (js ''<svg'')) # Yield (textChunk (js '' width'')) #
                     Yield (finishChunk (js ''stop'') None) # rest) [] = Inr (js ''<svg width'')"
    by (simp add: textChunk_def finishChunk_def deltaText_def js_def)
  from a b c show ?thesis by blast
qed

theorem accumulate_until_completion_witness:
  "accumulate [Yield (textChunk (js ''<svg'')), Yield (textChunk (js '' width'')),
               Yield (finishChunk (js ''length'') (Some (js ''=''))),
               Yield (textChunk (js ''x'')), Raise] (js ''a'')
   = Inr (js ''a<svg width'')"
  using accumulate_until_completion
    [of "[textChunk (js ''<svg''), textChunk (js '' width'')]"
        "finishChunk (js ''length'') (Some (js ''=''))"
        "[Yield (textChunk (js ''x'')), Raise]" "js ''a''"]
  by (simp add: textChunk_def finishChunk_def completes_def chunkText_def deltaText_def js_def)

section \<open>Evaluation of the mock runs\<close>

lemmas run_defs =
  generateAndSaveSVGs_def loop.simps iteration_def processIdea_def saveIfValid_def
  writeFileSync_def pace_def validateSVG_def generateNewIdea_def generateNewIdea_from.simps
  generateSVGWithGPT4_def generateSVGWithGPT4_from.simps ideaAttempt_def ideaOf_def
  svgAttempt_def deltaText_def create_def emit_def sleep_def Let_def trim_def
  startsWith_def isWhiteSpace_def js_def path_join_def path_normalize_def pushSegment_def
  sanitizeFilename_def toLowerCase_def toLowerUnit_def replaceNonAlnum_def isAlnum_def
  worldOf_def

section \<open>Retry: success after failures\<close>

text \<open>
  C2. Let \<open>k + 1 \<le> maxRetries\<close>. When the next \<open>k\<close> calls of the collaborator make the
  attempt fail and the call after them makes it succeed, \<open>generateNewIdea\<close> and
  \<open>generateSVGWithGPT4\<close> return the result of that attempt. The collaborator has then
  been called \<open>k + 1\<close> times, and the events added are \<open>k\<close> times a call followed by a
  wait of \<open>retryDelay\<close>, then the last call: \<open>k\<close> waits, each between two attempts.
  For the artifact call a failed attempt is a rejected call, a stream that fails while it
  is read, or a chunk without a first choice.
\<close>

theorem retry_succeeds_after_failures:
  assumes "k + 1 \<le> maxRetries cfg"
  shows "((\<forall>j<k. chat cl (calls w + j) = Rejected) \<and> chat cl (calls w + k) = Resolved c \<longrightarrow>
            generateNewIdea cfg cl used w =
              (Some (ideaOf c),
               \<lparr>calls = calls w + k + 1,
                trace = trace w @ attempts (IdeaRequest used) (retryDelay cfg) k @
                        [Create (IdeaRequest used)]\<rparr>)) \<and>
         ((\<forall>j<k. isl (svgAttempt d (chatStream cl (calls w + j)))) \<and>
          svgAttempt d (chatStream cl (calls w + k)) = Inr r \<longrightarrow>
            generateSVGWithGPT4 cfg cl d w =
              (Some r,
               \<lparr>calls = calls w + k + 1,
                trace = trace w @ attempts (SvgRequest d) (retryDelay cfg) k @
                        [Create (SvgRequest d)]\<rparr>)) \<and>
         length (filter isCreate (attempts req (retryDelay cfg) k @ [Create req])) = k + 1 \<and>
         filter isSleep (attempts req (retryDelay cfg) k @ [Create req]) =
           replicate k (Sleep (retryDelay cfg))"
proof -
  have le: "1 + k \<le> maxRetries cfg" using assms by simp
  have a: "generateNewIdea cfg cl used w =
              (Some (ideaOf c),
               \<lparr>calls = calls w + k + 1,
                trace = trace w @ attempts (IdeaRequest used) (retryDelay cfg) k @
                        [Create (IdeaRequest used)]\<rparr>)"
    if f: "\<forall>j<k. chat cl (calls w + j) = Rejected" and s: "chat cl (calls w + k) = Resolved c"
  proof -
    have "ideaAttempt (chat cl n) = Inl ApiError" if "calls w \<le> n" "n < calls w + k" for n
    proof -
      from that have "n - calls w < k" "calls w + (n - calls w) = n" by simp_all
      with f have "chat cl n = Rejected" by metis
      then show ?thesis by (simp add: ideaAttempt_def)
    qed
    moreover have "ideaAttempt (chat cl (calls w + k)) = Inr (ideaOf c)"
      using s by (simp add: ideaAttempt_def)
    ultimately show ?thesis
      unfolding generateNewIdea_def using le by (intro idea_success_after) simp_all
  qed
  have b: "generateSVGWithGPT4 cfg cl d w =
              (Some r,
               \<lparr>calls = calls w + k + 1,
                trace = trace w @ attempts (SvgRequest d) (retryDelay cfg) k @
                        [Create (SvgRequest d)]\<rparr>)"
    if f: "\<forall>j<k. isl (svgAttempt d (chatStream cl (calls w + j)))"
      and s: "svgAttempt d (chatStream cl (calls w + k)) = Inr r"
  proof -
    have "isl (svgAttempt d (chatStream cl n))" if "calls w \<le> n" "n < calls w + k" for n
    proof -
      from that have "n - calls w < k" "calls w + (n - calls w) = n" by simp_all
      with f show ?thesis by metis
    qed
    with s show ?thesis
      unfolding generateSVGWithGPT4_def using le by (intro svg_success_after) simp_all
  qed
  have c: "length (filter isCreate (attempts req (retryDelay cfg) k @ [Create req])) = k + 1"
    by (simp add: count_attempts)
  have d: "filter isSleep (attempts req (retryDelay cfg) k @ [Create req]) =
           replicate k (Sleep (retryDelay cfg))"
    by (induction k) (simp_all add: attempts_def)
  from a b c d show ?thesis by blast
qed

theorem retry_succeeds_after_failures_witness:
  "generateNewIdea config0 flakyClient [] start =
     (Some (js ''a red cat''),
      \<lparr>calls = 3,
       trace = [Create (IdeaRequest []), Sleep 3000, Create (IdeaRequest []), Sleep 3000,
                Create (IdeaRequest [])]\<rparr>) \<and>
   generateSVGWithGPT4 config0 flakyClient (js ''a red cat'') start =
     (Some \<lparr>description = js ''a red cat'', svg = js ''<circle/>''\<rparr>,
      \<lparr>calls = 3,
       trace = [Create (SvgRequest (js ''a red cat'')), Sleep 3000,
                Create (SvgRequest (js ''a red cat'')), Sleep 3000,
                Create (SvgRequest (js ''a red cat''))]\<rparr>)"
proof -
  have k: "2 + 1 \<le> maxRetries config0" by (simp add: config0_def)
  have f1: "\<forall>j<2. chat flakyClient (calls start + j) = Rejected"
    by (simp add: flakyClient_def script_def start_def less_Suc_eq numeral_2_eq_2)
  have s1: "chat flakyClient (calls start + 2) = Resolved (completionOf (js ''a red cat''))"
    by (simp add: flakyClient_def script_def start_def)
  have f2: "\<forall>j<2. isl (svgAttempt (js ''a red cat'') (chatStream flakyClient (calls start + j)))"
    by (simp add: flakyClient_def script_def start_def less_Suc_eq numeral_2_eq_2 svgAttempt_def
        textChunk_def deltaText_def js_def)
  have s2: "svgAttempt (js ''a red cat'') (chatStream flakyClient (calls start + 2)) =
              Inr \<lparr>description = js ''a red cat'', svg = js ''<circle/>''\<rparr>"
    by (simp add: flakyClient_def script_def start_def svgAttempt_def streamOf_def
        textChunk_def finishChunk_def deltaText_def js_def trim_def isWhiteSpace_def)
  have i: "ideaOf (completionOf (js ''a red cat'')) = js ''a red cat''"
    by (simp add: ideaOf_def completionOf_def trim_def isWhiteSpace_def js_def)
  from retry_succeeds_after_failures [OF k, of flakyClient start "completionOf (js ''a red cat'')" "[]" "js ''a red cat''"
      "\<lparr>description = js ''a red cat'', svg = js ''<circle/>''\<rparr>"] f1 s1 f2 s2 i
  show ?thesis
    by (simp add: attempts_def config0_def start_def numeral_2_eq_2)
qed

section \<open>Retry: exhaustion\<close>

text \<open>
  C3. When each of the next \<open>maxRetries\<close> calls makes the attempt fail, \<open>generateNewIdea\<close>
  and \<open>generateSVGWithGPT4\<close> return \<open>null\<close> after exactly \<open>maxRetries\<close> calls, with a
  wait between two attempts and none after the last; the failure of an attempt is a value
  that the loop consumes, and the caller gets a result. The loop body goes on from
  there, whatever the file system does: for a missing idea it prints the skip line and
  ends, with \<open>usedPrompts\<close> unchanged; for a missing artifact it writes no file and ends
  with the wait between generations when the iteration is not the last.
\<close>

theorem retry_exhausted_returns_null:
  "((\<forall>j<maxRetries cfg. chat cl (calls w + j) = Rejected) \<longrightarrow>
      generateNewIdea cfg cl used w =
        (None,
         \<lparr>calls = calls w + maxRetries cfg,
          trace = trace w @ attempts (IdeaRequest used) (retryDelay cfg) (maxRetries cfg - 1) @
                  (if maxRetries cfg = 0 then [] else [Create (IdeaRequest used)])\<rparr>) \<and>
      iteration fs cfg cl i (used, w) =
        Inr (used,
         \<lparr>calls = calls w + maxRetries cfg,
          trace = trace w @ attempts (IdeaRequest used) (retryDelay cfg) (maxRetries cfg - 1) @
                  (if maxRetries cfg = 0 then [] else [Create (IdeaRequest used)]) @
                  [LogSkipIdea (i + 1)]\<rparr>)) \<and>
   ((\<forall>j<maxRetries cfg. isl (svgAttempt d (chatStream cl (calls w + j)))) \<longrightarrow>
      generateSVGWithGPT4 cfg cl d w =
        (None,
         \<lparr>calls = calls w + maxRetries cfg,
          trace = trace w @ attempts (SvgRequest d) (retryDelay cfg) (maxRetries cfg - 1) @
                  (if maxRetries cfg = 0 then [] else [Create (SvgRequest d)])\<rparr>) \<and>
      processIdea fs cfg cl i d (used, w) =
        Inr (used @ [d],
         \<lparr>calls = calls w + maxRetries cfg,
          trace = trace w @ [LogProcessing (i + 1) d] @
                  attempts (SvgRequest d) (retryDelay cfg) (maxRetries cfg - 1) @
                  (if maxRetries cfg = 0 then [] else [Create (SvgRequest d)]) @
                  (if i + 1 < outputCount cfg then [Sleep (generationDelay cfg)] else [])\<rparr>))"
proof (intro conjI impI)
  assume f: "\<forall>j<maxRetries cfg. chat cl (calls w + j) = Rejected"
  show g: "generateNewIdea cfg cl used w =
        (None,
         \<lparr>calls = calls w + maxRetries cfg,
          trace = trace w @ attempts (IdeaRequest used) (retryDelay cfg) (maxRetries cfg - 1) @
                  (if maxRetries cfg = 0 then [] else [Create (IdeaRequest used)])\<rparr>)"
    using f by (rule idea_all_rejected)
  show "iteration fs cfg cl i (used, w) =
        Inr (used,
         \<lparr>calls = calls w + maxRetries cfg,
          trace = trace w @ attempts (IdeaRequest used) (retryDelay cfg) (maxRetries cfg - 1) @
                  (if maxRetries cfg = 0 then [] else [Create (IdeaRequest used)]) @
                  [LogSkipIdea (i + 1)]\<rparr>)"
    using iteration_skip [of cfg cl used w fs i] by (simp add: g emit_def)
next
  assume f: "\<forall>j<maxRetries cfg. isl (svgAttempt d (chatStream cl (calls w + j)))"
  show "generateSVGWithGPT4 cfg cl d w =
        (None,
         \<lparr>calls = calls w + maxRetries cfg,
          trace = trace w @ attempts (SvgRequest d) (retryDelay cfg) (maxRetries cfg - 1) @
                  (if maxRetries cfg = 0 then [] else [Create (SvgRequest d)])\<rparr>)"
    using f by (rule svg_all_failed)
  have "\<forall>j<maxRetries cfg.
          isl (svgAttempt d (chatStream cl (calls (emit (LogProcessing (i + 1) d) w) + j)))"
    using f by simp
  from svg_all_failed [OF this]
  show "processIdea fs cfg cl i d (used, w) =
        Inr (used @ [d],
         \<lparr>calls = calls w + maxRetries cfg,
          trace = trace w @ [LogProcessing (i + 1) d] @
                  attempts (SvgRequest d) (retryDelay cfg) (maxRetries cfg - 1) @
                  (if maxRetries cfg = 0 then [] else [Create (SvgRequest d)]) @
                  (if i + 1 < outputCount cfg then [Sleep (generationDelay cfg)] else [])\<rparr>)"
    by (simp add: processIdea_def Let_def saveIfValid_def pace_def sleep_def emit_def)
qed

theorem retry_exhausted_returns_null_witness:
  "generateNewIdea config0 failingClient [] start =
     (None,
      \<lparr>calls = 3,
       trace = [Create (IdeaRequest []), Sleep 3000, Create (IdeaRequest []), Sleep 3000,
                Create (IdeaRequest [])]\<rparr>) \<and>
   iteration readOnlyFs config0 failingClient 0 ([], start) =
     Inr ([],
      \<lparr>calls = 3,
       trace = [Create (IdeaRequest []), Sleep 3000, Create (IdeaRequest []), Sleep 3000,
                Create (IdeaRequest []), LogSkipIdea 1]\<rparr>) \<and>
   processIdea readOnlyFs config0 failingClient 0 (js ''a cat'') ([], start) =
     Inr ([js ''a cat''],
      \<lparr>calls = 3,
       trace = [LogProcessing 1 (js ''a cat''), Create (SvgRequest (js ''a cat'')), Sleep 3000,
                Create (SvgRequest (js ''a cat'')), Sleep 3000,
                Create (SvgRequest (js ''a cat'')), Sleep 2000]\<rparr>)"
proof -
  have f1: "\<forall>j<maxRetries config0. chat failingClient (calls start + j) = Rejected"
    by (simp add: failingClient_def)
  have f2: "\<forall>j<maxRetries config0.
              isl (svgAttempt (js ''a cat'') (chatStream failingClient (calls start + j)))"
    by (simp add: failingClient_def svgAttempt_def)
  from retry_exhausted_returns_null [of config0 failingClient start "[]" readOnlyFs 0 "js ''a cat''"] f1 f2
  show ?thesis
    by (simp add: attempts_def config0_def start_def numeral_2_eq_2)
qed

section \<open>Retry: the attempts are independent\<close>

text \<open>
  C9. Whenever \<open>generateSVGWithGPT4\<close> returns a result, at least one call was made; the
  result is the description with the trimmed string accumulated, from the empty string,
  over the stream of the last call, and every earlier call of this invocation made its
  attempt fail. When the stream of the last call is a sequence of fragments followed by a
  completion signal, the text returned is the trimmed concatenation of those fragments:
  nothing accumulated in an earlier attempt is in it.
\<close>

theorem result_from_final_attempt_only:
  assumes "generateSVGWithGPT4 cfg cl d w = (Some r, w')"
  shows "calls w < calls w' \<and>
         (\<exists>st accumulated.
            chatStream cl (calls w' - 1) = Resolved st \<and>
            accumulate st [] = Inr accumulated \<and>
            r = \<lparr>description = d, svg = trim accumulated\<rparr>) \<and>
         (\<forall>pre fin rest.
            chatStream cl (calls w' - 1) = Resolved (map Yield pre @ Yield fin # rest) \<and>
            (\<forall>ch \<in> set pre. chunk_choices ch \<noteq> [] \<and> \<not> completes ch) \<and> completes fin \<longrightarrow>
            svg r = trim (concat (map chunkText pre))) \<and>
         (\<forall>n. calls w \<le> n \<and> n < calls w' - 1 \<longrightarrow> isl (svgAttempt d (chatStream cl n)))"
proof -
  from assms have "generateSVGWithGPT4_from cfg cl d 1 w = (Some r, w')"
    by (simp add: generateSVGWithGPT4_def)
  from svg_result_last_attempt [OF this]
  have lt: "calls w < calls w'"
    and last: "svgAttempt d (chatStream cl (calls w' - 1)) = Inr r"
    and before: "\<forall>n. calls w \<le> n \<and> n < calls w' - 1 \<longrightarrow> isl (svgAttempt d (chatStream cl n))"
    by blast+
  from last obtain st accumulated where st: "chatStream cl (calls w' - 1) = Resolved st"
    "accumulate st [] = Inr accumulated" "r = \<lparr>description = d, svg = trim accumulated\<rparr>"
    by (auto simp: svgAttempt_def split: reply.splits sum.splits)
  have "svg r = trim (concat (map chunkText pre))"
    if "chatStream cl (calls w' - 1) = Resolved (map Yield pre @ Yield fin # rest)"
      "\<forall>ch \<in> set pre. chunk_choices ch \<noteq> [] \<and> \<not> completes ch" "completes fin"
    for pre fin rest
  proof -
    from that(1) st(1) have "st = map Yield pre @ Yield fin # rest" by simp
    with that(2,3) have "accumulate st [] = Inr (concat (map chunkText pre))"
      by (simp add: accumulate_fragments accumulate_finish del: accumulate.simps)
    with st(2,3) show ?thesis by simp
  qed
  with lt st before show ?thesis by blast
qed

theorem result_from_final_attempt_only_witness:
  "chatStream flakyClient 1 = Resolved [Yield (textChunk (js ''<svg'')), Raise] \<and>
   fst (generateSVGWithGPT4 config0 flakyClient (js ''a red cat'') start) =
     Some \<lparr>description = js ''a red cat'', svg = js ''<circle/>''\<rparr> \<and>
   svgAttempt (js ''a red cat'') (chatStream flakyClient 2) =
     Inr \<lparr>description = js ''a red cat'', svg = js ''<circle/>''\<rparr>"
proof -
  have run: "generateSVGWithGPT4 config0 flakyClient (js ''a red cat'') start =
     (Some \<lparr>description = js ''a red cat'', svg = js ''<circle/>''\<rparr>,
      \<lparr>calls = 3,
       trace = [Create (SvgRequest (js ''a red cat'')), Sleep 3000,
                Create (SvgRequest (js ''a red cat'')), Sleep 3000,
                Create (SvgRequest (js ''a red cat''))]\<rparr>)"
    by (simp add: config0_def flakyClient_def script_def streamOf_def textChunk_def
        finishChunk_def start_def run_defs)
  from result_from_final_attempt_only [OF run] have "\<exists>st accumulated.
            chatStream flakyClient 2 = Resolved st \<and>
            accumulate st [] = Inr accumulated \<and>
            \<lparr>description = js ''a red cat'', svg = js ''<circle/>''\<rparr> =
              \<lparr>description = js ''a red cat'', svg = trim accumulated\<rparr>"
    by simp
  then have "svgAttempt (js ''a red cat'') (chatStream flakyClient 2) =
     Inr \<lparr>description = js ''a red cat'', svg = js ''<circle/>''\<rparr>"
    by (auto simp: svgAttempt_def)
  moreover have "chatStream flakyClient 1 = Resolved [Yield (textChunk (js ''<svg'')), Raise]"
    by (simp add: flakyClient_def script_def)
  ultimately show ?thesis using run by simp
qed

section \<open>An empty idea\<close>

lemma ideaOf_absent:
  "ideaOf (Completion None) = []"
  "ideaOf (Completion (Some [])) = []"
  "ideaOf (Completion (Some (Choice None # cs))) = []"
  "ideaOf (Completion (Some (Choice (Some (Message None)) # cs))) = []"
  "ideaOf (Completion (Some (Choice (Some (Message (Some []))) # cs))) = []"
  by (simp_all add: ideaOf_def trim_def)

text \<open>
  C10. Let \<open>maxRetries\<close> be at least 1, so that a call is made. When the first call is
  answered and the content reached through the optional chain is absent or trims to the
  empty string, \<open>generateNewIdea\<close> returns the empty string after that one call, with no
  wait and no second call. The loop body then does what it does for \<open>null\<close>: it prints
  the skip line and ends, with \<open>usedPrompts\<close> unchanged and no artifact call. A response
  without choices, with an empty list of choices or with an empty content is such a
  response.
\<close>

theorem empty_idea_skips_iteration:
  assumes "1 \<le> maxRetries cfg" and "chat cl (calls w) = Resolved c" and "ideaOf c = []"
  shows "generateNewIdea cfg cl used w = (Some [], create (IdeaRequest used) w) \<and>
         iteration fs cfg cl i (used, w) =
           Inr (used, emit (LogSkipIdea (i + 1)) (create (IdeaRequest used) w)) \<and>
         (\<forall>cl'. fst (generateNewIdea cfg cl' used w) = None \<longrightarrow>
            iteration fs cfg cl' i (used, w) =
              Inr (used, emit (LogSkipIdea (i + 1)) (snd (generateNewIdea cfg cl' used w)))) \<and>
         ideaOf (Completion None) = [] \<and> ideaOf (Completion (Some [])) = [] \<and>
         ideaOf (Completion (Some (Choice (Some (Message (Some []))) # cs))) = []"
proof -
  have g: "generateNewIdea cfg cl used w = (Some [], create (IdeaRequest used) w)"
    unfolding generateNewIdea_def using assms
    by (subst generateNewIdea_from.simps) (simp add: ideaAttempt_def Let_def)
  then have "iteration fs cfg cl i (used, w) =
           Inr (used, emit (LogSkipIdea (i + 1)) (create (IdeaRequest used) w))"
    using iteration_skip [of cfg cl used w fs i] by simp
  with g show ?thesis
    by (simp add: iteration_skip ideaOf_absent)
qed

theorem empty_idea_skips_iteration_witness:
  "generateNewIdea config0 \<lparr>chat = (\<lambda>n. Resolved (Completion None)), chatStream = (\<lambda>n. Rejected)\<rparr>
     [js ''a cat''] start =
     (Some [], \<lparr>calls = 1, trace = [Create (IdeaRequest [js ''a cat''])]\<rparr>) \<and>
   iteration readOnlyFs config0
     \<lparr>chat = (\<lambda>n. Resolved (Completion None)), chatStream = (\<lambda>n. Rejected)\<rparr> 4
     ([js ''a cat''], start) =
     Inr ([js ''a cat''], \<lparr>calls = 1, trace = [Create (IdeaRequest [js ''a cat'']), LogSkipIdea 5]\<rparr>) \<and>
   iteration readOnlyFs config0 failingClient 4 ([js ''a cat''], start) =
     Inr ([js ''a cat''],
      \<lparr>calls = 3,
       trace = [Create (IdeaRequest [js ''a cat'']), Sleep 3000, Create (IdeaRequest [js ''a cat'']),
                Sleep 3000, Create (IdeaRequest [js ''a cat'']), LogSkipIdea 5]\<rparr>)"
proof -
  let ?cl = "\<lparr>chat = (\<lambda>n. Resolved (Completion None)), chatStream = (\<lambda>n. Rejected)\<rparr>"
  have a: "1 \<le> maxRetries config0" by (simp add: config0_def)
  have b: "chat ?cl (calls start) = Resolved (Completion None)" by simp
  have c: "ideaOf (Completion None) = []" by (simp add: ideaOf_def)
  have d: "generateNewIdea config0 failingClient [js ''a cat''] start =
     (None,
      \<lparr>calls = 3,
       trace = [Create (IdeaRequest [js ''a cat'']), Sleep 3000, Create (IdeaRequest [js ''a cat'']),
                Sleep 3000, Create (IdeaRequest [js ''a cat''])]\<rparr>)"
    by (simp add: config0_def failingClient_def start_def run_defs)
  from empty_idea_skips_iteration [OF a b c, of "[js ''a cat'']" readOnlyFs 4] d show ?thesis
    by (simp add: create_def emit_def start_def)
qed

section \<open>The wait between generations\<close>

text \<open>
  C1, as the code has it. Take an iteration that is not the last. When the idea call
  returned an idea that is not empty and the write of the iteration, if there is one, did
  not throw, the iteration ends with a wait of \<open>generationDelay\<close>, whatever the artifact
  call returned and whether a file was written or not. When that write throws, the run
  ends there: the last event is the artifact call, and there is no wait. When the idea
  call returned \<open>null\<close> or the empty string, the iteration ends with its skip line, and
  the next iteration starts without that wait.
\<close>

theorem pause_unless_idea_missing:
  assumes "i + 1 < outputCount cfg"
    and "generateNewIdea cfg cl used w = (idea, w1)"
  shows "(\<forall>newIdea result w3 w4.
            idea = Some newIdea \<and> newIdea \<noteq> [] \<and>
            generateSVGWithGPT4 cfg cl newIdea (emit (LogProcessing (i + 1) newIdea) w1) = (result, w3) \<and>
            saveIfValid fs cfg newIdea result w3 = Inr w4 \<longrightarrow>
            iteration fs cfg cl i (used, w) = Inr (used @ [newIdea], sleep (generationDelay cfg) w4) \<and>
            last (trace (worldOf (iteration fs cfg cl i (used, w)))) = Sleep (generationDelay cfg)) \<and>
         (\<forall>newIdea result w3 e.
            idea = Some newIdea \<and> newIdea \<noteq> [] \<and>
            generateSVGWithGPT4 cfg cl newIdea (emit (LogProcessing (i + 1) newIdea) w1) = (result, w3) \<and>
            saveIfValid fs cfg newIdea result w3 = Inl e \<longrightarrow>
            iteration fs cfg cl i (used, w) = Inl (FsError, w3) \<and>
            last (trace (worldOf (iteration fs cfg cl i (used, w)))) = Create (SvgRequest newIdea)) \<and>
         (idea = None \<or> idea = Some [] \<longrightarrow>
            iteration fs cfg cl i (used, w) = Inr (used, emit (LogSkipIdea (i + 1)) w1) \<and>
            last (trace (worldOf (iteration fs cfg cl i (used, w)))) = LogSkipIdea (i + 1))"
proof (intro conjI allI impI)
  fix newIdea result w3 w4
  assume h: "idea = Some newIdea \<and> newIdea \<noteq> [] \<and>
            generateSVGWithGPT4 cfg cl newIdea (emit (LogProcessing (i + 1) newIdea) w1) = (result, w3) \<and>
            saveIfValid fs cfg newIdea result w3 = Inr w4"
  then show a: "iteration fs cfg cl i (used, w) = Inr (used @ [newIdea], sleep (generationDelay cfg) w4)"
    using assms iteration_process [of cfg cl used w newIdea fs i]
    by (simp add: processIdea_def Let_def pace_def)
  show "last (trace (worldOf (iteration fs cfg cl i (used, w)))) = Sleep (generationDelay cfg)"
    by (simp add: a worldOf_def)
next
  fix newIdea result w3 e
  assume h: "idea = Some newIdea \<and> newIdea \<noteq> [] \<and>
            generateSVGWithGPT4 cfg cl newIdea (emit (LogProcessing (i + 1) newIdea) w1) = (result, w3) \<and>
            saveIfValid fs cfg newIdea result w3 = Inl e"
  then have e: "e = FsError" and r: "result \<noteq> None"
    by (auto simp: saveIfValid_eq writeFails_def persisted_def split: if_splits option.splits)
  from h e show a: "iteration fs cfg cl i (used, w) = Inl (FsError, w3)"
    using assms iteration_process [of cfg cl used w newIdea fs i]
    by (simp add: processIdea_def Let_def)
  from r obtain g where "result = Some g" by auto
  with h have "generateSVGWithGPT4_from cfg cl newIdea 1 (emit (LogProcessing (i + 1) newIdea) w1) = (Some g, w3)"
    by (simp add: generateSVGWithGPT4_def)
  from svg_result_last_event [OF this]
  show "last (trace (worldOf (iteration fs cfg cl i (used, w)))) = Create (SvgRequest newIdea)"
    by (simp add: a worldOf_def)
next
  assume h: "idea = None \<or> idea = Some []"
  then show a: "iteration fs cfg cl i (used, w) = Inr (used, emit (LogSkipIdea (i + 1)) w1)"
    using assms iteration_skip [of cfg cl used w fs i] by auto
  show "last (trace (worldOf (iteration fs cfg cl i (used, w)))) = LogSkipIdea (i + 1)"
    by (simp add: a worldOf_def)
qed

theorem pause_unless_idea_missing_witness:
  "trace (worldOf (iteration reliableFs config2 sessionClient 0 ([], start))) =
     [Create (IdeaRequest []), LogProcessing 1 (js ''A red cat!''),
      Create (SvgRequest (js ''A red cat!'')), Sleep 2000] \<and>
   iteration readOnlyFs config0 validClient 0 ([], start) =
     Inl (FsError,
          \<lparr>calls = 2,
           trace = [Create (IdeaRequest []), LogProcessing 1 (js ''a blue dog''),
                    Create (SvgRequest (js ''a blue dog''))]\<rparr>) \<and>
   trace (worldOf (iteration reliableFs config2 failingClient 0 ([], start))) =
     [Create (IdeaRequest []), Sleep 3000, Create (IdeaRequest []), Sleep 3000,
      Create (IdeaRequest []), LogSkipIdea 1]"
proof -
  have a: "0 + 1 < outputCount config2" by (simp add: config2_def)
  have a0: "0 + 1 < outputCount config0" by (simp add: config0_def)
  have b: "generateNewIdea config2 sessionClient [] start =
             (Some (js ''A red cat!''), \<lparr>calls = 1, trace = [Create (IdeaRequest [])]\<rparr>)"
    by (simp add: config2_def config0_def sessionClient_def script_def completionOf_def start_def
        run_defs)
  have c: "generateSVGWithGPT4 config2 sessionClient (js ''A red cat!'')
             (emit (LogProcessing (0 + 1) (js ''A red cat!''))
                \<lparr>calls = 1, trace = [Create (IdeaRequest [])]\<rparr>) =
             (Some \<lparr>description = js ''A red cat!'', svg = js ''not svg''\<rparr>,
              \<lparr>calls = 2, trace = [Create (IdeaRequest []), LogProcessing 1 (js ''A red cat!''),
                   Create (SvgRequest (js ''A red cat!''))]\<rparr>)"
    by (simp add: config2_def config0_def sessionClient_def script_def streamOf_def textChunk_def
        finishChunk_def start_def run_defs)
  have s: "saveIfValid reliableFs config2 (js ''A red cat!'')
             (Some \<lparr>description = js ''A red cat!'', svg = js ''not svg''\<rparr>)
             \<lparr>calls = 2, trace = [Create (IdeaRequest []), LogProcessing 1 (js ''A red cat!''),
                   Create (SvgRequest (js ''A red cat!''))]\<rparr> =
           Inr \<lparr>calls = 2, trace = [Create (IdeaRequest []), LogProcessing 1 (js ''A red cat!''),
                   Create (SvgRequest (js ''A red cat!''))]\<rparr>"
    by (simp add: saveIfValid_def validateSVG_def trim_def startsWith_def isWhiteSpace_def js_def)
  have e: "js ''A red cat!'' \<noteq> []" by (simp add: js_def)
  from pause_unless_idea_missing [OF a b, of reliableFs] c s e
  have 1: "trace (worldOf (iteration reliableFs config2 sessionClient 0 ([], start))) =
     [Create (IdeaRequest []), LogProcessing 1 (js ''A red cat!''),
      Create (SvgRequest (js ''A red cat!'')), Sleep 2000]"
    by (simp add: worldOf_def config2_def config0_def)
  have b2: "generateNewIdea config0 validClient [] start =
             (Some (js ''a blue dog''), \<lparr>calls = 1, trace = [Create (IdeaRequest [])]\<rparr>)"
    by (simp add: config0_def validClient_def completionOf_def start_def run_defs)
  have c2: "generateSVGWithGPT4 config0 validClient (js ''a blue dog'')
             (emit (LogProcessing (0 + 1) (js ''a blue dog''))
                \<lparr>calls = 1, trace = [Create (IdeaRequest [])]\<rparr>) =
             (Some \<lparr>description = js ''a blue dog'', svg = js ''<svg/>''\<rparr>,
              \<lparr>calls = 2, trace = [Create (IdeaRequest []), LogProcessing 1 (js ''a blue dog''),
                   Create (SvgRequest (js ''a blue dog''))]\<rparr>)"
    by (simp add: config0_def validClient_def streamOf_def textChunk_def
        finishChunk_def start_def run_defs)
  have s2: "saveIfValid readOnlyFs config0 (js ''a blue dog'')
             (Some \<lparr>description = js ''a blue dog'', svg = js ''<svg/>''\<rparr>)
             \<lparr>calls = 2, trace = [Create (IdeaRequest []), LogProcessing 1 (js ''a blue dog''),
                   Create (SvgRequest (js ''a blue dog''))]\<rparr> = Inl FsError"
    by (simp add: saveIfValid_def writeFileSync_def readOnlyFs_def validateSVG_def trim_def
        startsWith_def isWhiteSpace_def js_def)
  have e2: "js ''a blue dog'' \<noteq> []" by (simp add: js_def)
  from pause_unless_idea_missing [OF a0 b2, of readOnlyFs] c2 s2 e2
  have 2: "iteration readOnlyFs config0 validClient 0 ([], start) =
     Inl (FsError,
          \<lparr>calls = 2,
           trace = [Create (IdeaRequest []), LogProcessing 1 (js ''a blue dog''),
                    Create (SvgRequest (js ''a blue dog''))]\<rparr>)"
    by simp
  have d: "generateNewIdea config2 failingClient [] start =
     (None,
      \<lparr>calls = 3,
       trace = [Create (IdeaRequest []), Sleep 3000, Create (IdeaRequest []),
                Sleep 3000, Create (IdeaRequest [])]\<rparr>)"
    by (simp add: config2_def config0_def failingClient_def start_def run_defs)
  from pause_unless_idea_missing [OF a d, of reliableFs]
  have 3: "trace (worldOf (iteration reliableFs config2 failingClient 0 ([], start))) =
     [Create (IdeaRequest []), Sleep 3000, Create (IdeaRequest []), Sleep 3000,
      Create (IdeaRequest []), LogSkipIdea 1]"
    by (simp add: worldOf_def emit_def)
  from 1 2 3 show ?thesis by simp
qed

text \<open>
  C1 as the claim words it: every iteration but the last waits for \<open>generationDelay\<close>, also
  when the idea call returned no idea. In a run of two iterations in which every call
  fails, on a file system that never fails, no wait of \<open>generationDelay\<close> happens at all.
\<close>

theorem pause_after_failed_idea_counterexample:
  "generateAndSaveSVGs reliableFs config2 failingClient =
     Inr ([],
          \<lparr>calls = 6,
           trace = [Create (IdeaRequest []), Sleep 3000, Create (IdeaRequest []), Sleep 3000,
                    Create (IdeaRequest []), LogSkipIdea 1,
                    Create (IdeaRequest []), Sleep 3000, Create (IdeaRequest []), Sleep 3000,
                    Create (IdeaRequest []), LogSkipIdea 2]\<rparr>) \<and>
   Sleep (generationDelay config2) \<notin>
     set (trace (worldOf (generateAndSaveSVGs reliableFs config2 failingClient)))"
  by (simp add: config2_def config0_def failingClient_def reliableFs_def start_def run_defs)

section \<open>The number of iterations\<close>




section \<open>Validation before a file is written\<close>




end
